theory Spec2Isabelle
  imports Main "HOL-Library.Word"
begin

section \<open>Data model of package bank\<close>

text \<open>
  Go's \<open>int\<close> is a 64-bit two's complement integer on the usual platforms: \<open>+\<close>, \<open>-\<close>
  and unary minus wrap around, and \<open>m < 0\<close>, \<open>m > a.Bal\<close> compare the signed values
  (\<open><s\<close> on words). All arithmetic below is this arithmetic.
\<close>

type_synonym goint = "64 word"

text \<open>\<^verbatim>\<open>type history struct { Amt, Bal int }\<close>\<close>

record history =
  Amt :: goint
  Bal :: goint

text \<open>
  \<^verbatim>\<open>type Account struct { Name string; Bal int; Hist []history }\<close>.
  A nil slice and an empty slice both have length 0 and \<open>append\<close> treats them alike;
  both are the empty list.
\<close>

record Account =
  Name :: string
  Bal :: goint
  Hist :: "history list"

text \<open>
  The values built by \<open>errors.Errorf(format, args...)\<close> and \<open>errors.New(text)\<close>: the
  format string and its arguments, or the text, as the source writes them;
  \<open>errors.Wrap(err, text)\<close>; and \<open>Sys text\<close> for an error made by package \<open>os\<close> or
  \<open>encoding/gob\<close>, whose \<open>Error()\<close> is \<open>text\<close>.
\<close>

datatype error = Errorf string "goint list" | New string | Wrap error string | Sys string

datatype panic = NilDereference | IndexOutOfRange

text \<open>
  Accounts are handled through pointers (\<open>*Account\<close>), and two pointers may be the same.
  The store holds every allocated account; a pointer is an index into it, and \<open>&Account{...}\<close>
  allocates at the end. An index outside the store stands for the nil pointer: reading or
  writing through it panics.
\<close>

definition deref :: "Account list \<Rightarrow> nat \<Rightarrow> panic + Account" where
  "deref s p = (if p < length s then Inr (s ! p) else Inl NilDereference)"

text \<open>
  \<^verbatim>\<open>var accounts map[string]*Account\<close>: the package-level registry, \<open>None\<close> while the
  map is nil.
\<close>

record bank =
  heap :: "Account list"
  accounts :: "(string \<rightharpoonup> nat) option"

section \<open>The registry\<close>

text \<open>
  \<^verbatim>\<open>
  func NewAccount(s string) *Account {
      if accounts == nil { accounts = make(map[string]*Account) }
      a := &Account{Name: s}
      accounts[s] = a
      return a
  }
  \<close>
\<close>

definition NewAccount :: "bank \<Rightarrow> string \<Rightarrow> nat \<times> bank" where
  "NewAccount bk s =
     (let accts = (case accounts bk of None \<Rightarrow> Map.empty | Some m \<Rightarrow> m);
          a = length (heap bk);
          h = heap bk @ [\<lparr>Name = s, Bal = 0, Hist = []\<rparr>]
      in (a, \<lparr>heap = h, accounts = Some (accts(s \<mapsto> a))\<rparr>))"

text \<open>
  \<^verbatim>\<open>
  func GetAccount(name string) (*Account, error) {
      accnt, ok := accounts[name]
      if !ok { return nil, errors.New("account '" + name + "' does not exist") }
      return accnt, nil
  }
  \<close>
  Indexing a nil map finds nothing.
\<close>

definition GetAccount :: "bank \<Rightarrow> string \<Rightarrow> error + nat" where
  "GetAccount bk name =
     (case (case accounts bk of None \<Rightarrow> None | Some m \<Rightarrow> m name) of
        None \<Rightarrow> Inl (New (''account '' @ [CHR 0x27] @ name @ [CHR 0x27] @ '' does not exist''))
      | Some accnt \<Rightarrow> Inr accnt)"

section \<open>Transactions\<close>

text \<open>
  Each operation returns what the Go function returns (the integers and the error, \<open>None\<close>
  for a nil error) together with the store after the call, or a panic.
\<close>

definition Deposit :: "Account list \<Rightarrow> nat \<Rightarrow> goint \<Rightarrow> panic + (goint \<times> error option) \<times> Account list" where
  "Deposit s a m =
     (case deref s a of
        Inl p \<Rightarrow> Inl p
      | Inr A \<Rightarrow>
          if m <s 0 then
            Inr ((Account.Bal A, Some (Errorf ''Deposit: amount must be positive, but is %d.'' [m])), s)
          else
            let A1 = A\<lparr>Bal := Account.Bal A + m\<rparr>;
                A2 = A1\<lparr>Hist := Hist A1 @ [\<lparr>Amt = m, Bal = Account.Bal A1\<rparr>]\<rparr>
            in Inr ((Account.Bal A2, None), s[a := A2]))"

definition Withdraw :: "Account list \<Rightarrow> nat \<Rightarrow> goint \<Rightarrow> panic + (goint \<times> error option) \<times> Account list" where
  "Withdraw s a m =
     (case deref s a of
        Inl p \<Rightarrow> Inl p
      | Inr A \<Rightarrow>
          if m <s 0 then
            Inr ((Account.Bal A, Some (Errorf ''Withdraw: amount must be positive, but is %d.'' [m])), s)
          else if Account.Bal A <s m then
            Inr ((Account.Bal A,
                  Some (Errorf ''Withdraw: amount (%d) must be less than actual balance (%d).''
                          [m, Account.Bal A])), s)
          else
            let A1 = A\<lparr>Bal := Account.Bal A - m\<rparr>;
                A2 = A1\<lparr>Hist := Hist A1 @ [\<lparr>Amt = - m, Bal = Account.Bal A1\<rparr>]\<rparr>
            in Inr ((Account.Bal A2, None), s[a := A2]))"

text \<open>
  \<open>Transfer\<close> updates both balances first and appends the two history records afterwards,
  each statement reading the store as the statements before it left it:
  \<^verbatim>\<open>
  a.Bal -= m
  b.Bal += m
  a.Hist = append(a.Hist, history{-m, a.Bal})
  b.Hist = append(b.Hist, history{m, b.Bal})
  return a.Bal, b.Bal, nil
  \<close>
\<close>

definition Transfer :: "Account list \<Rightarrow> nat \<Rightarrow> nat \<Rightarrow> goint \<Rightarrow> panic + (goint \<times> goint \<times> error option) \<times> Account list" where
  "Transfer s a b m =
     (if m <s 0 then
        (case deref s a of
           Inl p \<Rightarrow> Inl p
         | Inr A \<Rightarrow>
             (case deref s b of
                Inl p \<Rightarrow> Inl p
              | Inr B \<Rightarrow>
                  Inr ((Account.Bal A, Account.Bal B,
                        Some (Errorf ''Transfer: amount must be positive, but is %d.'' [m])), s)))
      else
        (case deref s a of
           Inl p \<Rightarrow> Inl p
         | Inr A \<Rightarrow>
             if Account.Bal A <s m then
               Inr ((0, Account.Bal A,
                     Some (Errorf ''Withdraw: amount (%d) must be less than actual balance of sending account (%d).''
                             [m, Account.Bal A])), s)
             else
               let s1 = s[a := A\<lparr>Bal := Account.Bal A - m\<rparr>] in
               (case deref s1 b of
                  Inl p \<Rightarrow> Inl p
                | Inr B \<Rightarrow>
                    let s2 = s1[b := B\<lparr>Bal := Account.Bal B + m\<rparr>];
                        A2 = s2 ! a;
                        s3 = s2[a := A2\<lparr>Hist := Hist A2 @ [\<lparr>Amt = - m, Bal = Account.Bal A2\<rparr>]\<rparr>];
                        B3 = s3 ! b;
                        s4 = s3[b := B3\<lparr>Hist := Hist B3 @ [\<lparr>Amt = m, Bal = Account.Bal B3\<rparr>]\<rparr>]
                    in Inr ((Account.Bal (s4 ! a), Account.Bal (s4 ! b), None), s4))))"

section \<open>The history reader\<close>

text \<open>
  \<open>History(a)\<close> returns a closure over the pointer \<open>a\<close> and the variables \<open>i\<close> and
  \<open>more\<close>; the record holds the three captured variables.
  \<^verbatim>\<open>
  i := 0
  more := true
  return func() (int, int, bool) {
      if len(a.Hist) == 0 { return 0, 0, false }
      if i >= len(a.Hist)-1 { more = false }
      h := a.Hist[i]
      i++
      return h.Amt, h.Bal, more
  }
  \<close>
\<close>

record closure =
  cl_a :: nat
  cl_i :: nat
  cl_more :: bool

definition History :: "nat \<Rightarrow> closure" where
  "History a = \<lparr>cl_a = a, cl_i = 0, cl_more = True\<rparr>"

definition History_call :: "Account list \<Rightarrow> closure \<Rightarrow> panic + (goint \<times> goint \<times> bool) \<times> closure" where
  "History_call s c =
     (case deref s (cl_a c) of
        Inl p \<Rightarrow> Inl p
      | Inr A \<Rightarrow>
          if length (Hist A) = 0 then Inr ((0, 0, False), c)
          else
            let more = (if cl_i c \<ge> length (Hist A) - 1 then False else cl_more c) in
            if cl_i c < length (Hist A) then
              let h = Hist A ! cl_i c
              in Inr ((Amt h, history.Bal h, more), c\<lparr>cl_i := cl_i c + 1, cl_more := more\<rparr>)
            else Inl IndexOutOfRange)"

text \<open>Calling the same closure \<open>n\<close> times in a row on an unchanged store, collecting what it returns.\<close>

fun History_calls :: "Account list \<Rightarrow> closure \<Rightarrow> nat \<Rightarrow> panic + (goint \<times> goint \<times> bool) list \<times> closure" where
  "History_calls s c 0 = Inr ([], c)"
| "History_calls s c (Suc n) =
     (case History_call s c of
        Inl p \<Rightarrow> Inl p
      | Inr (t, c') \<Rightarrow>
          (case History_calls s c' n of
             Inl p \<Rightarrow> Inl p
           | Inr (ts, c'') \<Rightarrow> Inr (t # ts, c'')))"

section \<open>The balance invariant\<close>

text \<open>
  Replaying the amounts of a history from a starting balance reconstructs the resulting
  balance of every record.
\<close>

fun replay :: "goint \<Rightarrow> history list \<Rightarrow> bool" where
  "replay bal [] = True"
| "replay bal (h # hs) = (history.Bal h = bal + Amt h \<and> replay (bal + Amt h) hs)"

definition consistent :: "Account \<Rightarrow> bool" where
  "consistent A =
     (Account.Bal A = sum_list (map Amt (Hist A))
      \<and> replay 0 (Hist A)
      \<and> (Hist A = [] \<or> history.Bal (last (Hist A)) = Account.Bal A))"

section \<open>Persistence\<close>

text \<open>
  \<open>Save\<close> and \<open>Load\<close> are embedded with their control flow. The file functions of package
  \<open>os\<close> and the encoder and decoder of \<open>encoding/gob\<close> that they call are not part of
  package bank; they are modelled below. \<open>ListAccounts\<close> ranges over the map in an
  unspecified order and is left out.
\<close>

text \<open>
  Modelled from the spec: the snapshot format of \<open>encoding/gob\<close> (missing: the library).
  The snapshot holds all accounts, balances and histories, the histories in order. A gob
  stream is a sequence of self-describing values; a value is an integer, a string, a slice
  of values, a struct given by its transmitted fields, or a map given by its key-element
  pairs.
\<close>

datatype gob =
    GInt goint
  | GString string
  | GSlice "gob list"
  | GStruct "(string \<times> gob) list"
  | GMap "(gob \<times> gob) list"

text \<open>
  Modelled from the spec: \<open>Encoder.Encode\<close> on the types of package bank (missing: the
  library). A struct is sent field by field under the field names, a field holding the zero
  value of its type (0, the empty string, a slice of length 0) is not sent; the elements of
  a slice are sent in order.
\<close>

definition encHistory :: "history \<Rightarrow> gob" where
  "encHistory h =
     GStruct ((if Amt h = 0 then [] else [(''Amt'', GInt (Amt h))])
            @ (if history.Bal h = 0 then [] else [(''Bal'', GInt (history.Bal h))]))"

text \<open>
  Modelled from the spec: \<open>Encoder.Encode\<close> on an \<open>Account\<close> (missing: the library): its name, balance and
  history, each left out when it is the zero value.
\<close>

definition encAccount :: "Account \<Rightarrow> gob" where
  "encAccount A =
     GStruct ((if Name A = [] then [] else [(''Name'', GString (Name A))])
            @ (if Account.Bal A = 0 then [] else [(''Bal'', GInt (Account.Bal A))])
            @ (if Hist A = [] then [] else [(''Hist'', GSlice (map encHistory (Hist A)))]))"

text \<open>
  Modelled from the spec: \<open>Encoder.Encode\<close> on \<open>map[string]*Account\<close> (missing: the
  library). The entries are sent in the order \<open>ks\<close> in which the runtime ranges over the
  keys of the map, which the language leaves open. A pointer is not sent, the account it
  points to is; a nil pointer cannot be sent and is an error. A nil map is sent as a map
  without entries.
\<close>

fun encEntries :: "Account list \<Rightarrow> (string \<rightharpoonup> nat) \<Rightarrow> string list \<Rightarrow> error + (gob \<times> gob) list" where
  "encEntries s m [] = Inr []"
| "encEntries s m (k # ks) =
     (case m k of
        None \<Rightarrow> encEntries s m ks
      | Some p \<Rightarrow>
          (case deref s p of
             Inl _ \<Rightarrow> Inl (Sys ''gob: encodeReflectValue: nil element'')
           | Inr A \<Rightarrow>
               (case encEntries s m ks of
                  Inl e \<Rightarrow> Inl e
                | Inr es \<Rightarrow> Inr ((GString k, encAccount A) # es))))"

text \<open>
  Modelled from the spec: \<open>Encoder.Encode(accounts)\<close> (missing: the library): the whole registry as one
  value.
\<close>

definition Encode :: "string list \<Rightarrow> bank \<Rightarrow> error + gob" where
  "Encode ks bk =
     (case accounts bk of
        None \<Rightarrow> Inr (GMap [])
      | Some m \<Rightarrow>
          (case encEntries (heap bk) m ks of
             Inl e \<Rightarrow> Inl e
           | Inr es \<Rightarrow> Inr (GMap es)))"

text \<open>
  Modelled from the spec: \<open>Decoder.Decode\<close> on the types of package bank (missing: the
  library). A field that was not sent keeps the zero value of the newly allocated struct;
  a value of another kind than the field's type is an error.
\<close>

definition intField :: "(string \<times> gob) list \<Rightarrow> string \<Rightarrow> goint option" where
  "intField fs n =
     (case map_of fs n of None \<Rightarrow> Some 0 | Some (GInt i) \<Rightarrow> Some i | Some _ \<Rightarrow> None)"

text \<open>
  Modelled from the spec: reading a string field in \<open>Decoder.Decode\<close> (missing: the library).
\<close>

definition stringField :: "(string \<times> gob) list \<Rightarrow> string \<Rightarrow> string option" where
  "stringField fs n =
     (case map_of fs n of None \<Rightarrow> Some [] | Some (GString x) \<Rightarrow> Some x | Some _ \<Rightarrow> None)"

text \<open>
  Modelled from the spec: \<open>Decoder.Decode\<close> on a \<open>history\<close> record (missing: the library).
\<close>

definition decHistory :: "gob \<Rightarrow> history option" where
  "decHistory g =
     (case g of
        GStruct fs \<Rightarrow>
          (case intField fs ''Amt'' of
             None \<Rightarrow> None
           | Some a \<Rightarrow>
               (case intField fs ''Bal'' of
                  None \<Rightarrow> None
                | Some b \<Rightarrow> Some \<lparr>Amt = a, Bal = b\<rparr>))
      | _ \<Rightarrow> None)"

text \<open>
  Modelled from the spec: reading the field \<open>Hist\<close> in \<open>Decoder.Decode\<close> (missing: the library): the
  records in the order in which they were sent.
\<close>

definition histField :: "(string \<times> gob) list \<Rightarrow> string \<Rightarrow> history list option" where
  "histField fs n =
     (case map_of fs n of
        None \<Rightarrow> Some []
      | Some (GSlice gs) \<Rightarrow> those (map decHistory gs)
      | Some _ \<Rightarrow> None)"

text \<open>
  Modelled from the spec: \<open>Decoder.Decode\<close> on an \<open>Account\<close> (missing: the library).
\<close>

definition decAccount :: "gob \<Rightarrow> Account option" where
  "decAccount g =
     (case g of
        GStruct fs \<Rightarrow>
          (case stringField fs ''Name'' of
             None \<Rightarrow> None
           | Some n \<Rightarrow>
               (case intField fs ''Bal'' of
                  None \<Rightarrow> None
                | Some b \<Rightarrow>
                    (case histField fs ''Hist'' of
                       None \<Rightarrow> None
                     | Some hs \<Rightarrow> Some \<lparr>Name = n, Bal = b, Hist = hs\<rparr>)))
      | _ \<Rightarrow> None)"

text \<open>
  Modelled from the spec: \<open>Decoder.Decode\<close> on one entry of the map (missing: the library): the name and
  the account stored under it.
\<close>

definition decEntry :: "gob \<times> gob \<Rightarrow> (string \<times> Account) option" where
  "decEntry e =
     (case fst e of
        GString k \<Rightarrow> (case decAccount (snd e) of None \<Rightarrow> None | Some A \<Rightarrow> Some (k, A))
      | _ \<Rightarrow> None)"

text \<open>
  Modelled from the spec: \<open>Decoder.Decode\<close> into \<open>&accounts\<close> (missing: the library). It
  reads the first value of the stream and nothing behind it. A nil map is made first; then
  every entry read is stored under its key, pointing to a newly allocated account.
\<close>

fun store_entries :: "(string \<times> Account) list \<Rightarrow> Account list \<Rightarrow> (string \<rightharpoonup> nat) \<Rightarrow> Account list \<times> (string \<rightharpoonup> nat)" where
  "store_entries [] h m = (h, m)"
| "store_entries ((k, A) # es) h m = store_entries es (h @ [A]) (m(k \<mapsto> length h))"

text \<open>
  Modelled from the spec: \<open>Decoder.Decode(&accounts)\<close> (missing: the library): end of file on an empty
  stream, an error on a value that is not a map of accounts, otherwise the entries stored.
\<close>

definition Decode :: "gob list \<Rightarrow> bank \<Rightarrow> error + bank" where
  "Decode content bk =
     (case content of
        [] \<Rightarrow> Inl (Sys ''EOF'')
      | g # _ \<Rightarrow>
          (case g of
             GMap es \<Rightarrow>
               (case those (map decEntry es) of
                  None \<Rightarrow> Inl (Sys ''gob: type mismatch'')
                | Some xs \<Rightarrow>
                    (case store_entries xs (heap bk)
                            (case accounts bk of None \<Rightarrow> Map.empty | Some m \<Rightarrow> m) of
                       (h, m') \<Rightarrow> Inr \<lparr>heap = h, accounts = Some m'\<rparr>))
           | _ \<Rightarrow> Inl (Sys ''gob: type mismatch'')))"

text \<open>
  Modelled from the spec: the file \<open>bank.data\<close> and the file functions of package \<open>os\<close>
  (missing: the library and the file system). The file is absent (\<open>None\<close>) or holds a gob
  stream. What the system decides in one call is given by \<open>env\<close>: the failure, if any, of
  opening the file when it exists, of creating it, of writing to it and of closing it, and
  \<open>leftover\<close>, what a reader finds behind the written value when an existing file is
  written over from its start without being truncated.
\<close>

record env =
  open_err :: "string option"
  create_err :: "string option"
  write_err :: "string option"
  close_err :: "string option"
  leftover :: "gob list"

text \<open>
  \<^verbatim>\<open>
  func Save() (err error) {
      f, err := os.OpenFile("bank.data", os.O_WRONLY, 0666)
      if err != nil {
          f, err = os.Create("bank.data")
          if err != nil { return errors.Wrap(err, "Save: Create failed") }
      }
      defer func() {
          e := f.Close()
          if e != nil {
              if err == nil { err = e; return }
              err = errors.Wrap(err, e.Error())
          }
      }()
      e := gob.NewEncoder(f)
      err = e.Encode(accounts)
      if err != nil { return errors.Wrap(err, "Save: Encode failed") }
      return nil
  }
  \<close>
  \<open>os.OpenFile\<close> without \<open>O_CREATE\<close> fails on an absent file and does not truncate an
  existing one; \<open>os.Create\<close> leaves an empty file. When nothing is written the file keeps
  what opening it left.
\<close>

definition Save :: "env \<Rightarrow> string list \<Rightarrow> bank \<Rightarrow> gob list option \<Rightarrow> error option \<times> gob list option" where
  "Save env ks bk file =
     (case (case (case file of
                    None \<Rightarrow> Inl (Sys ''open bank.data: no such file or directory'')
                  | Some old \<Rightarrow>
                      (case open_err env of
                         Some t \<Rightarrow> Inl (Sys t)
                       | None \<Rightarrow> Inr (old, leftover env))) of
              Inr f \<Rightarrow> Inr f
            | Inl _ \<Rightarrow>
                (case create_err env of
                   Some t \<Rightarrow> Inl (Sys t)
                 | None \<Rightarrow> Inr ([], []))) of
        Inl e \<Rightarrow> (Some (Wrap e ''Save: Create failed''), file)
      | Inr (old, rest) \<Rightarrow>
          (case (case Encode ks bk of
                   Inl e \<Rightarrow> (Some (Wrap e ''Save: Encode failed''), old)
                 | Inr g \<Rightarrow>
                     (case write_err env of
                        Some t \<Rightarrow> (Some (Wrap (Sys t) ''Save: Encode failed''), old)
                      | None \<Rightarrow> (None, g # rest))) of
             (err, content) \<Rightarrow>
               (case close_err env of
                  None \<Rightarrow> (err, Some content)
                | Some t \<Rightarrow>
                    (case err of
                       None \<Rightarrow> (Some (Sys t), Some content)
                     | Some e \<Rightarrow> (Some (Wrap e t), Some content)))))"

text \<open>
  \<^verbatim>\<open>
  func Load() error {
      f, err := os.Open("bank.data")
      if err != nil {
          if os.IsNotExist(err) { return nil }
          return errors.Wrap(err, "Load: Open failed")
      }
      defer f.Close()
      d := gob.NewDecoder(f)
      err = d.Decode(&accounts)
      if err != nil { return errors.Wrap(err, "Load: Decode failed") }
      return nil
  }
  \<close>
  When decoding fails the registry is taken to be as it was.
\<close>

definition Load :: "env \<Rightarrow> bank \<Rightarrow> gob list option \<Rightarrow> error option \<times> bank" where
  "Load env bk file =
     (case file of
        None \<Rightarrow> (None, bk)
      | Some content \<Rightarrow>
          (case open_err env of
             Some t \<Rightarrow> (Some (Wrap (Sys t) ''Load: Open failed''), bk)
           | None \<Rightarrow>
               (case Decode content bk of
                  Inl e \<Rightarrow> (Some (Wrap e ''Load: Decode failed''), bk)
                | Inr bk' \<Rightarrow> (None, bk'))))"

text \<open>
  What a registry holds, by value: the account a name leads to, if any. Two registries are
  deep-equal when they hold the same accounts under the same names.
\<close>

definition contents :: "bank \<Rightarrow> string \<Rightarrow> Account option" where
  "contents bk name =
     (case GetAccount bk name of
        Inl _ \<Rightarrow> None
      | Inr p \<Rightarrow> (case deref (heap bk) p of Inl _ \<Rightarrow> None | Inr A \<Rightarrow> Some A))"

section \<open>Fixtures\<close>

text \<open>
  The account of \<open>TestHistory\<close>, an account holding 100 after one deposit, a new account,
  and an account holding the largest \<open>int\<close> after one deposit.
\<close>

definition pike :: Account where
  "pike = \<lparr>Name = ''Pike'', Bal = 100,
           Hist = [\<lparr>Amt = 100, Bal = 100\<rparr>, \<lparr>Amt = 10, Bal = 110\<rparr>,
                   \<lparr>Amt = - 40, Bal = 70\<rparr>, \<lparr>Amt = 23, Bal = 93\<rparr>]\<rparr>"

definition griesemer :: Account where
  "griesemer = \<lparr>Name = ''Griesemer'', Bal = 100, Hist = [\<lparr>Amt = 100, Bal = 100\<rparr>]\<rparr>"

definition thompson :: Account where
  "thompson = \<lparr>Name = ''Thompson'', Bal = 0, Hist = []\<rparr>"

definition maxint :: Account where
  "maxint = \<lparr>Name = ''Max'', Bal = 9223372036854775807,
             Hist = [\<lparr>Amt = 9223372036854775807, Bal = 9223372036854775807\<rparr>]\<rparr>"

text \<open>A system on which no file operation fails, and a registry of two accounts.\<close>

definition no_failure :: env where
  "no_failure = \<lparr>open_err = None, create_err = None, write_err = None, close_err = None,
                 leftover = [GString ''rest of an older snapshot'']\<rparr>"

definition two_accounts :: bank where
  "two_accounts = \<lparr>heap = [pike, thompson],
                   accounts = Some [''Pike'' \<mapsto> 0, ''Thompson'' \<mapsto> 1]\<rparr>"

text \<open>The value that holds \<open>two_accounts\<close>, its entries in the order Thompson, Pike.\<close>

definition snapshot :: gob where
  "snapshot =
     GMap [(GString ''Thompson'', GStruct [(''Name'', GString ''Thompson'')]),
           (GString ''Pike'',
            GStruct [(''Name'', GString ''Pike''), (''Bal'', GInt 100),
                     (''Hist'', GSlice [GStruct [(''Amt'', GInt 100), (''Bal'', GInt 100)],
                                        GStruct [(''Amt'', GInt 10), (''Bal'', GInt 110)],
                                        GStruct [(''Amt'', GInt (- 40)), (''Bal'', GInt 70)],
                                        GStruct [(''Amt'', GInt 23), (''Bal'', GInt 93)]])])]"

section \<open>Deposit and Withdraw\<close>

lemma deref_Inr: "deref s p = Inr A \<longleftrightarrow> p < length s \<and> s ! p = A"
  by (auto simp: deref_def)

text \<open>
  Signed arithmetic that stays within the range of \<open>int\<close> does not wrap.
\<close>

lemma sint_add_no_wrap:
  fixes m x :: goint
  assumes "\<not> m <s 0" and "sint x + sint m < 2 ^ 63"
  shows "sint (x + m) = sint x + sint m"
proof -
  have m0: "0 \<le> sint m"
    using assms(1) by (simp add: word_sless_alt)
  have lb: "- (2 ^ 63) \<le> sint x"
    using sint_ge [of x] by simp
  have "signed_take_bit 63 (sint x + sint m) = sint x + sint m"
    by (rule signed_take_bit_int_eq_self) (use m0 lb assms(2) in simp_all)
  then show ?thesis
    by (simp add: sint_word_add)
qed

lemma sint_neg_no_wrap:
  fixes m :: goint
  assumes "\<not> m <s 0"
  shows "sint (- m) = - sint m"
proof -
  have m0: "0 \<le> sint m"
    using assms(1) by (simp add: word_sless_alt)
  have ub: "sint m < 2 ^ 63"
    using sint_lt [of m] by simp
  have "signed_take_bit 63 (- sint m) = - sint m"
    by (rule signed_take_bit_int_eq_self) (use m0 ub in simp_all)
  then show ?thesis
    by (simp add: sint_word_minus)
qed

text \<open>
  Claim C5 as it is written says that a deposit of \<open>m \<ge> 0\<close> increases the balance by
  \<open>m\<close>. On an account holding the largest \<open>int\<close>, \<open>2^63 - 1\<close>, a deposit of 1 succeeds
  and leaves the balance \<open>-2^63\<close>: the sum has wrapped around.
\<close>

theorem Deposit_overflow_counterexample:
  "deref [maxint] 0 = Inr maxint
   \<and> \<not> (1 :: goint) <s 0
   \<and> Deposit [maxint] 0 1 =
       Inr ((- 9223372036854775808, None),
            [\<lparr>Name = ''Max'', Bal = - 9223372036854775808,
              Hist = [\<lparr>Amt = 9223372036854775807, Bal = 9223372036854775807\<rparr>,
                      \<lparr>Amt = 1, Bal = - 9223372036854775808\<rparr>]\<rparr>])
   \<and> sint (Account.Bal maxint) = 9223372036854775807
   \<and> sint (- 9223372036854775808 :: goint) = - 9223372036854775808
   \<and> sint (- 9223372036854775808 :: goint) \<noteq> sint (Account.Bal maxint) + sint (1 :: goint)"
  by (simp add: Deposit_def deref_def maxint_def Let_def word_sless_alt)

text \<open>
  Claim C5, as the code has it. \<open>Deposit\<close> returns an error, the one reporting a negative
  amount, exactly when \<open>m < 0\<close>; then it returns the prior balance and leaves the store as
  it was. Otherwise it returns no error and the new balance, the account has that balance
  and its history extended by the record \<open>{m, new balance}\<close>, and its name and every other
  account are as before. The new balance is the 64-bit sum \<open>Bal + m\<close>; as a signed number
  it is the prior balance increased by \<open>m\<close> whenever that sum is at most \<open>2^63 - 1\<close>.
\<close>

theorem Deposit_spec:
  assumes "deref s a = Inr A"
  shows "Deposit s a m =
           (if m <s 0 then
              Inr ((Account.Bal A,
                    Some (Errorf ''Deposit: amount must be positive, but is %d.'' [m])), s)
            else
              Inr ((Account.Bal A + m, None),
                   s[a := A\<lparr>Bal := Account.Bal A + m,
                            Hist := Hist A @ [\<lparr>Amt = m, Bal = Account.Bal A + m\<rparr>]\<rparr>]))
         \<and> (\<not> m <s 0 \<and> sint (Account.Bal A) + sint m < 2 ^ 63
              \<longrightarrow> sint (Account.Bal A + m) = sint (Account.Bal A) + sint m)"
  using assms sint_add_no_wrap [of m "Account.Bal A"]
  by (simp add: Deposit_def Let_def)

theorem Deposit_spec_witness:
  "Deposit [\<lparr>Name = ''Pike'', Bal = 0, Hist = []\<rparr>] 0 42 =
     Inr ((42, None), [\<lparr>Name = ''Pike'', Bal = 42, Hist = [\<lparr>Amt = 42, Bal = 42\<rparr>]\<rparr>])
   \<and> sint (0 + 42 :: goint) = sint (0 :: goint) + sint (42 :: goint)
   \<and> Deposit [\<lparr>Name = ''Pike'', Bal = 42, Hist = [\<lparr>Amt = 42, Bal = 42\<rparr>]\<rparr>] 0 (- 1) =
     Inr ((42, Some (Errorf ''Deposit: amount must be positive, but is %d.'' [- 1])),
          [\<lparr>Name = ''Pike'', Bal = 42, Hist = [\<lparr>Amt = 42, Bal = 42\<rparr>]\<rparr>])"
  using Deposit_spec [of "[\<lparr>Name = ''Pike'', Bal = 0, Hist = []\<rparr>]" 0
                         "\<lparr>Name = ''Pike'', Bal = 0, Hist = []\<rparr>" 42]
        Deposit_spec [of "[\<lparr>Name = ''Pike'', Bal = 42, Hist = [\<lparr>Amt = 42, Bal = 42\<rparr>]\<rparr>]" 0
                         "\<lparr>Name = ''Pike'', Bal = 42, Hist = [\<lparr>Amt = 42, Bal = 42\<rparr>]\<rparr>" "- 1"]
  by (simp add: deref_def word_sless_alt)

text \<open>
  A withdrawal that passes both checks has \<open>0 \<le> m \<le> Bal\<close>, so the subtraction does not
  wrap: the signed balance goes down by exactly \<open>m\<close>.
\<close>

lemma sint_sub_no_wrap:
  fixes m x :: goint
  assumes "\<not> m <s 0" and "\<not> x <s m"
  shows "sint (x - m) = sint x - sint m"
proof -
  have m0: "0 \<le> sint m" and mx: "sint m \<le> sint x"
    using assms by (simp_all add: word_sless_alt)
  have ub: "sint x < 2 ^ 63"
    using sint_lt [of x] by simp
  have "signed_take_bit 63 (sint x - sint m) = sint x - sint m"
    by (rule signed_take_bit_int_eq_self) (use m0 mx ub in simp_all)
  then show ?thesis
    by (simp add: sint_word_diff)
qed

text \<open>
  Claim C6. \<open>Withdraw\<close> checks \<open>m < 0\<close> first and returns the negative-amount error; then
  \<open>m > Bal\<close>, and returns the error reporting that the amount exceeds the balance; on both
  it returns the prior balance and leaves the store as it was. Otherwise (\<open>m = Bal\<close>
  included) it returns no error and the new balance \<open>Bal - m\<close>, the account has that balance
  and its history extended by \<open>{-m, Bal - m}\<close>, and the signed balance has gone down by
  exactly \<open>m\<close>.
\<close>

theorem Withdraw_spec:
  assumes "deref s a = Inr A"
  shows "Withdraw s a m =
           (if m <s 0 then
              Inr ((Account.Bal A,
                    Some (Errorf ''Withdraw: amount must be positive, but is %d.'' [m])), s)
            else if Account.Bal A <s m then
              Inr ((Account.Bal A,
                    Some (Errorf ''Withdraw: amount (%d) must be less than actual balance (%d).''
                            [m, Account.Bal A])), s)
            else
              Inr ((Account.Bal A - m, None),
                   s[a := A\<lparr>Bal := Account.Bal A - m,
                            Hist := Hist A @ [\<lparr>Amt = - m, Bal = Account.Bal A - m\<rparr>]\<rparr>]))
         \<and> (m <s 0 \<or> Account.Bal A <s m
              \<or> sint (Account.Bal A - m) = sint (Account.Bal A) - sint m)"
  using assms sint_sub_no_wrap [of m "Account.Bal A"]
  by (auto simp: Withdraw_def Let_def)

theorem Withdraw_spec_witness:
  "Withdraw [griesemer] 0 100 =
     Inr ((0, None),
          [\<lparr>Name = ''Griesemer'', Bal = 0,
            Hist = [\<lparr>Amt = 100, Bal = 100\<rparr>, \<lparr>Amt = - 100, Bal = 0\<rparr>]\<rparr>])
   \<and> Withdraw [griesemer] 0 101 =
     Inr ((100, Some (Errorf ''Withdraw: amount (%d) must be less than actual balance (%d).''
                        [101, 100])), [griesemer])
   \<and> Withdraw [griesemer] 0 (- 1) =
     Inr ((100, Some (Errorf ''Withdraw: amount must be positive, but is %d.'' [- 1])),
          [griesemer])"
  using Withdraw_spec [of "[griesemer]" 0 griesemer 100]
        Withdraw_spec [of "[griesemer]" 0 griesemer 101]
        Withdraw_spec [of "[griesemer]" 0 griesemer "- 1"]
  by (simp add: deref_def griesemer_def word_sless_alt)

section \<open>Transfer\<close>

text \<open>
  A transfer between two different accounts that passes both checks: each account gets its
  new balance and one record, in either order of the two writes.
\<close>

lemma Transfer_ok_distinct:
  assumes A: "deref s a = Inr A" and B: "deref s b = Inr B" and ab: "a \<noteq> b"
    and n1: "\<not> m <s 0" and n2: "\<not> Account.Bal A <s m"
  shows "Transfer s a b m =
           Inr ((Account.Bal A - m, Account.Bal B + m, None),
                s[a := A\<lparr>Bal := Account.Bal A - m,
                         Hist := Hist A @ [\<lparr>Amt = - m, Bal = Account.Bal A - m\<rparr>]\<rparr>,
                  b := B\<lparr>Bal := Account.Bal B + m,
                         Hist := Hist B @ [\<lparr>Amt = m, Bal = Account.Bal B + m\<rparr>]\<rparr>])"
proof -
  from A B have la: "a < length s" and lb: "b < length s" and sb: "s ! b = B"
    by (simp_all add: deref_Inr)
  have d: "deref (s[a := A\<lparr>Bal := Account.Bal A - m\<rparr>]) b = Inr B"
    using lb sb ab by (simp add: deref_def)
  show ?thesis
    using la lb ab n1 n2 A d
    by (simp add: Transfer_def Let_def list_update_swap [of b a])
qed

text \<open>
  Claim C2, as the code has it: for two distinct accounts \<open>A\<close> and \<open>B\<close> and
  \<open>0 \<le> m \<le> A.Bal\<close>, \<open>Transfer\<close> returns no error and the pair of new balances;
  \<open>A\<close> gets its new balance and the one record \<open>{-m, new balance}\<close> at the end of its
  history, \<open>B\<close> gets its new balance and the one record \<open>{m, new balance}\<close>; names and all
  other accounts are as before. \<open>A\<close>'s balance has gone down by exactly \<open>m\<close> and the
  recorded amount is exactly \<open>-m\<close>. \<open>B\<close>'s new balance is the 64-bit sum \<open>B.Bal + m\<close>; as
  a signed number it is \<open>B\<close>'s balance increased by \<open>m\<close> whenever that sum is at most
  \<open>2^63 - 1\<close>.
\<close>

theorem Transfer_distinct:
  assumes A: "deref s a = Inr A" and B: "deref s b = Inr B" and ab: "a \<noteq> b"
    and m0: "0 \<le>s m" and mA: "m \<le>s Account.Bal A"
  shows "Transfer s a b m =
           Inr ((Account.Bal A - m, Account.Bal B + m, None),
                s[a := A\<lparr>Bal := Account.Bal A - m,
                         Hist := Hist A @ [\<lparr>Amt = - m, Bal = Account.Bal A - m\<rparr>]\<rparr>,
                  b := B\<lparr>Bal := Account.Bal B + m,
                         Hist := Hist B @ [\<lparr>Amt = m, Bal = Account.Bal B + m\<rparr>]\<rparr>])
         \<and> sint (Account.Bal A - m) = sint (Account.Bal A) - sint m
         \<and> sint (- m) = - sint m
         \<and> (sint (Account.Bal B) + sint m < 2 ^ 63
              \<longrightarrow> sint (Account.Bal B + m) = sint (Account.Bal B) + sint m)"
proof -
  from m0 have n1: "\<not> m <s 0"
    by (simp add: word_sless_alt word_sle_eq)
  from mA have n2: "\<not> Account.Bal A <s m"
    by (simp add: word_sless_alt word_sle_eq)
  from A B ab n1 n2 have "Transfer s a b m =
           Inr ((Account.Bal A - m, Account.Bal B + m, None),
                s[a := A\<lparr>Bal := Account.Bal A - m,
                         Hist := Hist A @ [\<lparr>Amt = - m, Bal = Account.Bal A - m\<rparr>]\<rparr>,
                  b := B\<lparr>Bal := Account.Bal B + m,
                         Hist := Hist B @ [\<lparr>Amt = m, Bal = Account.Bal B + m\<rparr>]\<rparr>])"
    by (rule Transfer_ok_distinct)
  moreover from n1 n2 have "sint (Account.Bal A - m) = sint (Account.Bal A) - sint m"
    by (rule sint_sub_no_wrap)
  moreover from n1 have "sint (- m) = - sint m"
    by (rule sint_neg_no_wrap)
  moreover have "sint (Account.Bal B) + sint m < 2 ^ 63
              \<longrightarrow> sint (Account.Bal B + m) = sint (Account.Bal B) + sint m"
    using n1 by (simp add: sint_add_no_wrap)
  ultimately show ?thesis
    by simp
qed

theorem Transfer_distinct_witness:
  "Transfer [griesemer, thompson] 0 1 100 =
     Inr ((0, 100, None),
          [\<lparr>Name = ''Griesemer'', Bal = 0,
            Hist = [\<lparr>Amt = 100, Bal = 100\<rparr>, \<lparr>Amt = - 100, Bal = 0\<rparr>]\<rparr>,
           \<lparr>Name = ''Thompson'', Bal = 100, Hist = [\<lparr>Amt = 100, Bal = 100\<rparr>]\<rparr>])
   \<and> sint (0 + 100 :: goint) = sint (0 :: goint) + sint (100 :: goint)"
  using Transfer_distinct [of "[griesemer, thompson]" 0 griesemer 1 thompson 100]
  by (simp add: deref_def griesemer_def thompson_def word_sle_eq)

text \<open>
  Claim C2 as it is written speaks of every pair of accounts and of an increase by \<open>m\<close>.
  When source and destination are the same account and \<open>m = 40\<close> is within its balance
  of 100, the call succeeds, the balance is still 100 and not 60, and the one account has
  gained two records. When the destination holds the largest \<open>int\<close>, a transfer of 1
  succeeds and leaves it \<open>-2^63\<close>.
\<close>

theorem Transfer_counterexample:
  "deref [griesemer] 0 = Inr griesemer
   \<and> 0 \<le>s (40 :: goint) \<and> 40 \<le>s Account.Bal griesemer
   \<and> Transfer [griesemer] 0 0 40 =
       Inr ((100, 100, None),
            [\<lparr>Name = ''Griesemer'', Bal = 100,
              Hist = [\<lparr>Amt = 100, Bal = 100\<rparr>, \<lparr>Amt = - 40, Bal = 100\<rparr>,
                      \<lparr>Amt = 40, Bal = 100\<rparr>]\<rparr>])
   \<and> (100 :: goint) \<noteq> Account.Bal griesemer - 40
   \<and> deref [griesemer, maxint] 0 = Inr griesemer \<and> deref [griesemer, maxint] 1 = Inr maxint
   \<and> 0 \<le>s (1 :: goint) \<and> 1 \<le>s Account.Bal griesemer
   \<and> Transfer [griesemer, maxint] 0 1 1 =
       Inr ((99, - 9223372036854775808, None),
            [\<lparr>Name = ''Griesemer'', Bal = 99,
              Hist = [\<lparr>Amt = 100, Bal = 100\<rparr>, \<lparr>Amt = - 1, Bal = 99\<rparr>]\<rparr>,
             \<lparr>Name = ''Max'', Bal = - 9223372036854775808,
              Hist = [\<lparr>Amt = 9223372036854775807, Bal = 9223372036854775807\<rparr>,
                      \<lparr>Amt = 1, Bal = - 9223372036854775808\<rparr>]\<rparr>])
   \<and> sint (- 9223372036854775808 :: goint) \<noteq> sint (Account.Bal maxint) + sint (1 :: goint)"
  by (simp add: Transfer_def deref_def griesemer_def maxint_def Let_def word_sless_alt word_sle_eq)

text \<open>
  Claim C4. For \<open>m \<ge> 0\<close> greater than the source's balance, \<open>Transfer\<close> returns the
  insufficient-funds error with the pair \<open>(0, source balance)\<close>, whatever the destination
  is, and the store is as before.
\<close>

theorem Transfer_insufficient:
  assumes "deref s a = Inr A" and "0 \<le>s m" and "Account.Bal A <s m"
  shows "Transfer s a b m =
           Inr ((0, Account.Bal A,
                 Some (Errorf ''Withdraw: amount (%d) must be less than actual balance of sending account (%d).''
                         [m, Account.Bal A])), s)"
  using assms by (simp add: Transfer_def word_sless_alt word_sle_eq)

theorem Transfer_insufficient_witness:
  "Transfer [griesemer, thompson] 0 1 300 =
     Inr ((0, 100,
           Some (Errorf ''Withdraw: amount (%d) must be less than actual balance of sending account (%d).''
                   [300, 100])), [griesemer, thompson])"
  using Transfer_insufficient [of "[griesemer, thompson]" 0 griesemer 300 1]
  by (simp add: deref_def griesemer_def word_sless_alt word_sle_eq)

text \<open>
  Claim C10. For \<open>m < 0\<close>, \<open>Transfer\<close> returns the negative-amount error with the pair of
  the current balances of source and destination, and the store is as before.
\<close>

theorem Transfer_negative:
  assumes "deref s a = Inr A" and "deref s b = Inr B" and "m <s 0"
  shows "Transfer s a b m =
           Inr ((Account.Bal A, Account.Bal B,
                 Some (Errorf ''Transfer: amount must be positive, but is %d.'' [m])), s)"
  using assms by (simp add: Transfer_def)

theorem Transfer_negative_witness:
  "Transfer [griesemer, thompson] 0 1 (- 100) =
     Inr ((100, 0, Some (Errorf ''Transfer: amount must be positive, but is %d.'' [- 100])),
          [griesemer, thompson])"
  using Transfer_negative [of "[griesemer, thompson]" 0 griesemer 1 thompson "- 100"]
  by (simp add: deref_def griesemer_def thompson_def word_sless_alt)

section \<open>Failed calls\<close>

text \<open>
  Claim C7. Whenever \<open>Deposit\<close>, \<open>Withdraw\<close> or \<open>Transfer\<close> returns an error, the store
  after the call is the store before it: no balance and no history has changed.
\<close>

theorem failed_call_unchanged:
  "(Deposit s a m = Inr ((r, Some e), s') \<longrightarrow> s' = s) \<and>
   (Withdraw s a m = Inr ((r, Some e), s') \<longrightarrow> s' = s) \<and>
   (Transfer s a b m = Inr ((r1, r2, Some e), s') \<longrightarrow> s' = s)"
  by (auto simp: Deposit_def Withdraw_def Transfer_def Let_def split: sum.splits if_splits)

theorem failed_call_unchanged_witness:
  "Deposit [griesemer] 0 (- 1) =
     Inr ((100, Some (Errorf ''Deposit: amount must be positive, but is %d.'' [- 1])), [griesemer])
   \<and> Withdraw [griesemer] 0 101 =
     Inr ((100, Some (Errorf ''Withdraw: amount (%d) must be less than actual balance (%d).''
                        [101, 100])), [griesemer])
   \<and> Transfer [griesemer, thompson] 0 1 (- 100) =
     Inr ((100, 0, Some (Errorf ''Transfer: amount must be positive, but is %d.'' [- 100])),
          [griesemer, thompson])"
proof -
  have d: "Deposit [griesemer] 0 (- 1) =
     Inr ((100, Some (Errorf ''Deposit: amount must be positive, but is %d.'' [- 1])), [griesemer])"
    by (simp add: Deposit_def deref_def griesemer_def word_sless_alt)
  have w: "Withdraw [griesemer] 0 101 =
     Inr ((100, Some (Errorf ''Withdraw: amount (%d) must be less than actual balance (%d).''
                        [101, 100])), [griesemer])"
    by (simp add: Withdraw_def deref_def griesemer_def word_sless_alt)
  have t: "Transfer [griesemer, thompson] 0 1 (- 100) =
     Inr ((100, 0, Some (Errorf ''Transfer: amount must be positive, but is %d.'' [- 100])),
          [griesemer, thompson])"
    by (simp add: Transfer_def deref_def griesemer_def thompson_def word_sless_alt)
  show ?thesis
    using d w t
      failed_call_unchanged [where s = "[griesemer]" and a = 0 and m = "- 1" and r = 100
        and e = "Errorf ''Deposit: amount must be positive, but is %d.'' [- 1]"
        and s' = "[griesemer]"]
      failed_call_unchanged [where s = "[griesemer]" and a = 0 and m = 101 and r = 100
        and e = "Errorf ''Withdraw: amount (%d) must be less than actual balance (%d).'' [101, 100]"
        and s' = "[griesemer]"]
      failed_call_unchanged [where s = "[griesemer, thompson]" and a = 0 and b = 1
        and m = "- 100" and ?r1.0 = 100 and ?r2.0 = 0
        and e = "Errorf ''Transfer: amount must be positive, but is %d.'' [- 100]"
        and s' = "[griesemer, thompson]"]
    by simp
qed

section \<open>Preservation of the balance invariant\<close>

lemma replay_append:
  "replay bal (hs @ [h]) \<longleftrightarrow>
     replay bal hs \<and> history.Bal h = bal + sum_list (map Amt hs) + Amt h"
  by (induction hs arbitrary: bal) (auto simp: add.assoc)

text \<open>
  Adding \<open>x\<close> to the balance and appending the record \<open>{x, new balance}\<close> keeps an account
  consistent: this is the step of \<open>Deposit\<close> (\<open>x = m\<close>) and of \<open>Withdraw\<close> (\<open>x = -m\<close>).
\<close>

lemma consistent_append:
  assumes "consistent A"
  shows "consistent (A\<lparr>Bal := Account.Bal A + x,
                        Hist := Hist A @ [\<lparr>Amt = x, Bal = Account.Bal A + x\<rparr>]\<rparr>)"
  using assms by (simp add: consistent_def replay_append)

lemma consistent_new: "consistent \<lparr>Name = n, Bal = 0, Hist = []\<rparr>"
  by (simp add: consistent_def)

lemma list_all_update:
  "list_all P s \<Longrightarrow> P x \<Longrightarrow> list_all P (s[i := x])"
  by (auto simp: list_all_iff dest: set_update_subset_insert [THEN subsetD])

lemma NewAccount_consistent:
  "list_all consistent (heap bk) \<Longrightarrow> list_all consistent (heap (snd (NewAccount bk n)))"
  by (simp add: NewAccount_def Let_def consistent_new)

lemma Deposit_consistent:
  assumes "list_all consistent s" and "Deposit s a m = Inr (r, s')"
  shows "list_all consistent s'"
proof -
  from assms(2) obtain A where A: "deref s a = Inr A"
    by (auto simp: Deposit_def split: sum.splits)
  then have "consistent A"
    using assms(1) by (auto simp: deref_Inr list_all_length)
  from consistent_append [OF this, of m] assms A show ?thesis
    by (auto simp: Deposit_def Let_def list_all_update split: if_splits)
qed

lemma Withdraw_consistent:
  assumes "list_all consistent s" and "Withdraw s a m = Inr (r, s')"
  shows "list_all consistent s'"
proof -
  from assms(2) obtain A where A: "deref s a = Inr A"
    by (auto simp: Withdraw_def split: sum.splits)
  then have "consistent A"
    using assms(1) by (auto simp: deref_Inr list_all_length)
  from consistent_append [OF this, of "- m"] assms A show ?thesis
    by (auto simp: Withdraw_def Let_def list_all_update split: if_splits)
qed

lemma Transfer_consistent:
  assumes all: "list_all consistent s" and T: "Transfer s a b m = Inr (r, s')" and ab: "a \<noteq> b"
  shows "list_all consistent s'"
proof -
  from T obtain A where A: "deref s a = Inr A"
    by (auto simp: Transfer_def split: sum.splits if_splits)
  show ?thesis
  proof (cases "m <s 0 \<or> Account.Bal A <s m")
    case True
    with T A have "s' = s"
      by (auto simp: Transfer_def split: sum.splits if_splits)
    with all show ?thesis by simp
  next
    case False
    then have n1: "\<not> m <s 0" and n2: "\<not> Account.Bal A <s m" by simp_all
    from T A n1 n2 obtain B where "deref (s[a := A\<lparr>Bal := Account.Bal A - m\<rparr>]) b = Inr B"
      by (auto simp: Transfer_def Let_def split: sum.splits)
    with ab have B: "deref s b = Inr (s ! b)"
      by (simp add: deref_def split: if_splits)
    have cA: "consistent A" and cB: "consistent (s ! b)"
      using all A B by (auto simp: deref_Inr list_all_length)
    from Transfer_ok_distinct [OF A B ab n1 n2] T
    have s': "s' = s[a := A\<lparr>Bal := Account.Bal A - m,
                         Hist := Hist A @ [\<lparr>Amt = - m, Bal = Account.Bal A - m\<rparr>]\<rparr>,
                  b := (s ! b)\<lparr>Bal := Account.Bal (s ! b) + m,
                         Hist := Hist (s ! b) @ [\<lparr>Amt = m, Bal = Account.Bal (s ! b) + m\<rparr>]\<rparr>]"
      by simp
    show ?thesis
      unfolding s'
      using all consistent_append [OF cA, of "- m"] consistent_append [OF cB, of m]
      by (simp add: list_all_update)
  qed
qed

text \<open>
  Claim C1. The invariant (balance = sum of the history amounts, replay from 0 reconstructs
  every record's resulting balance, last record's balance = current balance) is kept by
  \<open>NewAccount\<close>, \<open>Deposit\<close>, \<open>Withdraw\<close> and by \<open>Transfer\<close> between two different
  accounts, as the lemmas above show. It is broken by a successful \<open>Transfer\<close> from an
  account to itself: \<open>Transfer\<close> writes both balances before it appends the records, so the
  debit record carries the balance after the credit. An account created by \<open>NewAccount\<close>,
  holding 100 after one \<open>Deposit\<close>, is consistent; after transferring 30 to itself its
  history is \<open>{100,100}, {-30,100}, {30,100}\<close>, where replay gives 70 for the second record.
\<close>

theorem Transfer_self_breaks_replay:
  "NewAccount \<lparr>heap = [], accounts = None\<rparr> ''Griesemer'' =
     (0, \<lparr>heap = [\<lparr>Name = ''Griesemer'', Bal = 0, Hist = []\<rparr>],
          accounts = Some [''Griesemer'' \<mapsto> 0]\<rparr>)
   \<and> Deposit [\<lparr>Name = ''Griesemer'', Bal = 0, Hist = []\<rparr>] 0 100 = Inr ((100, None), [griesemer])
   \<and> consistent griesemer
   \<and> Transfer [griesemer] 0 0 30 =
       Inr ((100, 100, None),
            [\<lparr>Name = ''Griesemer'', Bal = 100,
              Hist = [\<lparr>Amt = 100, Bal = 100\<rparr>, \<lparr>Amt = - 30, Bal = 100\<rparr>,
                      \<lparr>Amt = 30, Bal = 100\<rparr>]\<rparr>])
   \<and> \<not> consistent \<lparr>Name = ''Griesemer'', Bal = 100,
              Hist = [\<lparr>Amt = 100, Bal = 100\<rparr>, \<lparr>Amt = - 30, Bal = 100\<rparr>,
                      \<lparr>Amt = 30, Bal = 100\<rparr>]\<rparr>
   \<and> \<not> replay 0 [\<lparr>Amt = 100, Bal = 100\<rparr>, \<lparr>Amt = - 30, Bal = 100\<rparr>, \<lparr>Amt = 30, Bal = 100\<rparr>]"
  by (simp add: NewAccount_def Deposit_def Transfer_def deref_def griesemer_def consistent_def
        Let_def word_sless_alt)

section \<open>Creating accounts\<close>

text \<open>
  Claim C9. \<open>NewAccount\<close> returns a pointer to a new account (one that was not in the store)
  with the given name, balance 0 and empty history, and the registry maps the name to it,
  whether or not the name was registered before: there is no error, and a prior account of
  that name is no longer reachable by its name. Other names and the accounts already
  allocated are untouched.
\<close>

theorem NewAccount_registers:
  assumes "NewAccount bk s = (a, bk')"
  shows "deref (heap bk') a = Inr \<lparr>Name = s, Bal = 0, Hist = []\<rparr>
       \<and> GetAccount bk' s = Inr a
       \<and> deref (heap bk) a = Inl NilDereference
       \<and> (\<forall>t. t \<noteq> s \<longrightarrow> GetAccount bk' t = GetAccount bk t)
       \<and> (\<forall>p. p < length (heap bk) \<longrightarrow> deref (heap bk') p = deref (heap bk) p)"
  using assms
  by (auto simp: NewAccount_def GetAccount_def deref_def Let_def nth_append
           split: option.splits if_splits)

theorem NewAccount_registers_witness:
  "GetAccount \<lparr>heap = [pike, thompson], accounts = Some [''Pike'' \<mapsto> 0, ''Thompson'' \<mapsto> 1]\<rparr> ''Pike'' = Inr 0
   \<and> NewAccount \<lparr>heap = [pike, thompson], accounts = Some [''Pike'' \<mapsto> 0, ''Thompson'' \<mapsto> 1]\<rparr> ''Pike'' =
       (2, \<lparr>heap = [pike, thompson, \<lparr>Name = ''Pike'', Bal = 0, Hist = []\<rparr>],
            accounts = Some [''Pike'' \<mapsto> 2, ''Thompson'' \<mapsto> 1]\<rparr>)
   \<and> GetAccount \<lparr>heap = [pike, thompson, \<lparr>Name = ''Pike'', Bal = 0, Hist = []\<rparr>],
            accounts = Some [''Pike'' \<mapsto> 2, ''Thompson'' \<mapsto> 1]\<rparr> ''Pike'' = Inr 2
   \<and> deref [pike, thompson, \<lparr>Name = ''Pike'', Bal = 0, Hist = []\<rparr>] 2 =
       Inr \<lparr>Name = ''Pike'', Bal = 0, Hist = []\<rparr>
   \<and> GetAccount \<lparr>heap = [pike, thompson, \<lparr>Name = ''Pike'', Bal = 0, Hist = []\<rparr>],
            accounts = Some [''Pike'' \<mapsto> 2, ''Thompson'' \<mapsto> 1]\<rparr> ''Thompson'' = Inr 1"
proof -
  have n: "NewAccount \<lparr>heap = [pike, thompson], accounts = Some [''Pike'' \<mapsto> 0, ''Thompson'' \<mapsto> 1]\<rparr> ''Pike'' =
       (2, \<lparr>heap = [pike, thompson, \<lparr>Name = ''Pike'', Bal = 0, Hist = []\<rparr>],
            accounts = Some [''Pike'' \<mapsto> 2, ''Thompson'' \<mapsto> 1]\<rparr>)"
    by (auto simp: NewAccount_def Let_def fun_eq_iff)
  have g: "GetAccount \<lparr>heap = [pike, thompson], accounts = Some [''Pike'' \<mapsto> 0, ''Thompson'' \<mapsto> 1]\<rparr> ''Pike'' = Inr 0"
    by (simp add: GetAccount_def)
  have g': "GetAccount \<lparr>heap = [pike, thompson], accounts = Some [''Pike'' \<mapsto> 0, ''Thompson'' \<mapsto> 1]\<rparr> ''Thompson'' = Inr 1"
    by (simp add: GetAccount_def)
  from NewAccount_registers [OF n] n g g' show ?thesis
    by simp
qed

section \<open>Reading the history\<close>

lemma History_calls_suffix:
  assumes "deref s a = Inr A" and "Hist A = pre @ rest" and "rest \<noteq> []"
  shows "History_calls s \<lparr>cl_a = a, cl_i = length pre, cl_more = True\<rparr> (length rest) =
           Inr (map (\<lambda>h. (Amt h, history.Bal h, True)) (butlast rest)
                  @ [(Amt (last rest), history.Bal (last rest), False)],
                \<lparr>cl_a = a, cl_i = length pre + length rest, cl_more = False\<rparr>)"
  using assms
proof (induction rest arbitrary: pre)
  case Nil
  then show ?case by simp
next
  case (Cons h t)
  have call: "History_call s \<lparr>cl_a = a, cl_i = length pre, cl_more = True\<rparr> =
                Inr ((Amt h, history.Bal h, t \<noteq> []),
                     \<lparr>cl_a = a, cl_i = Suc (length pre), cl_more = (t \<noteq> [])\<rparr>)"
    using Cons.prems(1,2) by (simp add: History_call_def Let_def)
  show ?case
  proof (cases "t = []")
    case True
    with call show ?thesis by simp
  next
    case False
    have "Hist A = (pre @ [h]) @ t"
      using Cons.prems(2) by simp
    from Cons.IH [OF Cons.prems(1) this False] call False
    show ?thesis by simp
  qed
qed

text \<open>
  Claim C8. On an account with a non-empty history of \<open>n\<close> records, the first \<open>n\<close> calls of
  a closure just returned by \<open>History\<close> return the records oldest first, each with its amount
  and resulting balance, with \<open>true\<close> on all but the last call and \<open>false\<close> on the last.
  On an account with an empty history the first call returns \<open>(0, 0, false)\<close>.
\<close>

theorem History_yields_records:
  assumes "deref s a = Inr A"
  shows "(Hist A \<noteq> [] \<longrightarrow>
            History_calls s (History a) (length (Hist A)) =
              Inr (map (\<lambda>h. (Amt h, history.Bal h, True)) (butlast (Hist A))
                     @ [(Amt (last (Hist A)), history.Bal (last (Hist A)), False)],
                   \<lparr>cl_a = a, cl_i = length (Hist A), cl_more = False\<rparr>))
       \<and> (Hist A = [] \<longrightarrow> History_call s (History a) = Inr ((0, 0, False), History a))"
proof (intro conjI impI)
  assume "Hist A \<noteq> []"
  with History_calls_suffix [OF assms, of "[]" "Hist A"]
  show "History_calls s (History a) (length (Hist A)) =
              Inr (map (\<lambda>h. (Amt h, history.Bal h, True)) (butlast (Hist A))
                     @ [(Amt (last (Hist A)), history.Bal (last (Hist A)), False)],
                   \<lparr>cl_a = a, cl_i = length (Hist A), cl_more = False\<rparr>)"
    by (simp add: History_def)
next
  assume "Hist A = []"
  with assms show "History_call s (History a) = Inr ((0, 0, False), History a)"
    by (simp add: History_call_def History_def)
qed

theorem History_yields_records_witness:
  "History_calls [pike] (History 0) 4 =
     Inr ([(100, 100, True), (10, 110, True), (- 40, 70, True), (23, 93, False)],
          \<lparr>cl_a = 0, cl_i = 4, cl_more = False\<rparr>)
   \<and> History_call [thompson] (History 0) = Inr ((0, 0, False), History 0)"
  using History_yields_records [of "[pike]" 0 pike]
        History_yields_records [of "[thompson]" 0 thompson]
  by (simp add: deref_def pike_def thompson_def eval_nat_numeral)

section \<open>Save and Load\<close>

lemma decHistory_encHistory: "decHistory (encHistory h) = Some h"
  by (cases h) (simp add: decHistory_def encHistory_def intField_def)

lemma those_decHistory: "those (map (decHistory \<circ> encHistory) hs) = Some hs"
  by (induction hs) (simp_all add: decHistory_encHistory)

lemma decAccount_encAccount: "decAccount (encAccount A) = Some A"
  by (cases A)
     (simp add: decAccount_def encAccount_def intField_def stringField_def histField_def
        those_decHistory)

lemma encEntries_valid:
  assumes "\<forall>k p. m k = Some p \<longrightarrow> p < length s" and "set ks \<subseteq> dom m"
  shows "encEntries s m ks = Inr (map (\<lambda>k. (GString k, encAccount (s ! the (m k)))) ks)"
  using assms(2)
proof (induction ks)
  case Nil
  then show ?case by simp
next
  case (Cons k ks)
  then obtain p where p: "m k = Some p" by auto
  with assms(1) have "deref s p = Inr (s ! p)"
    by (simp add: deref_def)
  with Cons p show ?case by simp
qed

lemma those_decEntry:
  "those (map (decEntry \<circ> (\<lambda>k. (GString k, encAccount (f k)))) ks) = Some (map (\<lambda>k. (k, f k)) ks)"
  by (induction ks) (simp_all add: decEntry_def decAccount_encAccount)

lemma store_entries_lookup:
  assumes "distinct (map fst es)" and "store_entries es h m = (h', m')"
  shows "(\<exists>t. h' = h @ t) \<and>
         (\<forall>k. case map_of es k of
                 Some A \<Rightarrow> (\<exists>p. m' k = Some p \<and> p < length h' \<and> h' ! p = A)
               | None \<Rightarrow> m' k = m k)"
  using assms
proof (induction es arbitrary: h m)
  case Nil
  then show ?case by simp
next
  case (Cons e es)
  obtain k0 A0 where e: "e = (k0, A0)" by (cases e)
  from Cons.prems e have st: "store_entries es (h @ [A0]) (m(k0 \<mapsto> length h)) = (h', m')"
    and d: "distinct (map fst es)" and k0: "k0 \<notin> fst ` set es"
    by simp_all
  from Cons.IH [OF d st] obtain t where h': "h' = (h @ [A0]) @ t"
    and look: "\<forall>k. case map_of es k of
                 Some A \<Rightarrow> (\<exists>p. m' k = Some p \<and> p < length h' \<and> h' ! p = A)
               | None \<Rightarrow> m' k = (m(k0 \<mapsto> length h)) k"
    by blast
  have none: "map_of es k0 = None"
    using k0 by (simp add: map_of_eq_None_iff)
  have "\<forall>k. case map_of (e # es) k of
                 Some A \<Rightarrow> (\<exists>p. m' k = Some p \<and> p < length h' \<and> h' ! p = A)
               | None \<Rightarrow> m' k = m k"
  proof
    fix k
    show "case map_of (e # es) k of
                 Some A \<Rightarrow> (\<exists>p. m' k = Some p \<and> p < length h' \<and> h' ! p = A)
               | None \<Rightarrow> m' k = m k"
    proof (cases "k = k0")
      case True
      from look [rule_format, of k0] none have "m' k0 = Some (length h)" by simp
      with True e h' show ?thesis by (simp add: nth_append)
    next
      case False
      with look [rule_format, of k] e show ?thesis
        by (simp split: option.splits)
    qed
  qed
  with h' show ?case by auto
qed

lemma map_of_keys:
  "map_of (map (\<lambda>k. (k, f k)) ks) k = (if k \<in> set ks then Some (f k) else None)"
  by (induction ks) auto

text \<open>
  Claim C3. Take a registry whose entries all point to accounts, any order \<open>ks\<close> in which
  the runtime ranges over its names, any file (absent, or holding anything), and a system
  on which no file operation fails. Then \<open>Save\<close> returns no error, and \<open>Load\<close> on the
  cleared registry (\<open>accounts = nil\<close>) returns no error and leaves a registry that is
  deep-equal to the one saved: the same names, each leading to an account with the same
  name, balance and history in the same order.
\<close>

theorem Save_Load_round_trip:
  assumes sv: "open_err env = None" "create_err env = None" "write_err env = None"
      "close_err env = None"
    and ld: "open_err env' = None"
    and ks: "distinct ks" "set ks = (case accounts bk of None \<Rightarrow> {} | Some m \<Rightarrow> dom m)"
    and wf: "\<forall>m k p. accounts bk = Some m \<and> m k = Some p \<longrightarrow> p < length (heap bk)"
  shows "\<exists>content bk'.
           Save env ks bk file = (None, Some content)
         \<and> Load env' (bk\<lparr>accounts := None\<rparr>) (Some content) = (None, bk')
         \<and> contents bk' = contents bk"
proof (cases "accounts bk")
  case None
  have enc: "Encode ks bk = Inr (GMap [])"
    using None by (simp add: Encode_def)
  obtain rest where save: "Save env ks bk file = (None, Some (GMap [] # rest))"
    using sv enc by (cases "file") (simp_all add: Save_def)
  have load: "Load env' (bk\<lparr>accounts := None\<rparr>) (Some (GMap [] # rest)) =
                (None, \<lparr>heap = heap bk, accounts = Some Map.empty\<rparr>)"
    using ld by (simp add: Load_def Decode_def)
  have "contents \<lparr>heap = heap bk, accounts = Some Map.empty\<rparr> = contents bk"
    using None by (simp add: contents_def GetAccount_def fun_eq_iff)
  with save load show ?thesis by blast
next
  case (Some m)
  let ?f = "\<lambda>k. heap bk ! the (m k)"
  let ?es = "map (\<lambda>k. (k, ?f k)) ks"
  let ?g = "GMap (map (\<lambda>k. (GString k, encAccount (?f k))) ks)"
  from wf Some have wf': "\<forall>k p. m k = Some p \<longrightarrow> p < length (heap bk)" by simp
  from ks(2) Some have dom: "set ks = dom m" by simp
  have enc: "Encode ks bk = Inr ?g"
    using Some encEntries_valid [OF wf', of ks] dom by (simp add: Encode_def)
  obtain rest where save: "Save env ks bk file = (None, Some (?g # rest))"
    using sv enc by (cases "file") (simp_all add: Save_def)
  obtain h' m' where st: "store_entries ?es (heap bk) Map.empty = (h', m')"
    by (cases "store_entries ?es (heap bk) Map.empty")
  have load: "Load env' (bk\<lparr>accounts := None\<rparr>) (Some (?g # rest)) =
                (None, \<lparr>heap = h', accounts = Some m'\<rparr>)"
    using ld st by (simp add: Load_def Decode_def those_decEntry [of ?f ks])
  have dist: "distinct (map fst ?es)"
    using ks(1) by (simp add: comp_def)
  from store_entries_lookup [OF dist st]
  have look: "\<And>k. case map_of ?es k of
                 Some A \<Rightarrow> (\<exists>p. m' k = Some p \<and> p < length h' \<and> h' ! p = A)
               | None \<Rightarrow> m' k = None"
    by simp
  have "contents \<lparr>heap = h', accounts = Some m'\<rparr> k = contents bk k" for k
  proof (cases "m k")
    case None
    then have "k \<notin> set ks" using dom by auto
    with look [of k] have "m' k = None" by (simp add: map_of_keys)
    with None Some show ?thesis
      by (simp add: contents_def GetAccount_def)
  next
    case (Some p)
    then have "k \<in> set ks" using dom by auto
    with look [of k] Some obtain p' where "m' k = Some p'" "p' < length h'" "h' ! p' = heap bk ! p"
      by (auto simp: map_of_keys)
    moreover from wf' Some have "p < length (heap bk)" by simp
    ultimately show ?thesis
      using Some \<open>accounts bk = Some m\<close>
      by (simp add: contents_def GetAccount_def deref_def)
  qed
  then have "contents \<lparr>heap = h', accounts = Some m'\<rparr> = contents bk"
    by (simp add: fun_eq_iff)
  with save load show ?thesis by blast
qed

theorem Save_Load_round_trip_witness:
  "Save no_failure [''Thompson'', ''Pike''] two_accounts (Some [GInt 1, GInt 2]) =
     (None, Some [snapshot, GString ''rest of an older snapshot''])
   \<and> Load no_failure (two_accounts\<lparr>accounts := None\<rparr>)
        (Some [snapshot, GString ''rest of an older snapshot'']) =
     (None, \<lparr>heap = [pike, thompson, thompson, pike],
             accounts = Some [''Thompson'' \<mapsto> 2, ''Pike'' \<mapsto> 3]\<rparr>)
   \<and> contents \<lparr>heap = [pike, thompson, thompson, pike],
                accounts = Some [''Thompson'' \<mapsto> 2, ''Pike'' \<mapsto> 3]\<rparr> = contents two_accounts"
proof -
  have s: "Save no_failure [''Thompson'', ''Pike''] two_accounts (Some [GInt 1, GInt 2]) =
     (None, Some [snapshot, GString ''rest of an older snapshot''])"
    by (simp add: Save_def Encode_def no_failure_def two_accounts_def deref_def encAccount_def
          encHistory_def pike_def thompson_def snapshot_def)
  have l: "Load no_failure (two_accounts\<lparr>accounts := None\<rparr>)
        (Some [snapshot, GString ''rest of an older snapshot'']) =
     (None, \<lparr>heap = [pike, thompson, thompson, pike],
             accounts = Some [''Thompson'' \<mapsto> 2, ''Pike'' \<mapsto> 3]\<rparr>)"
    by (simp add: Load_def Decode_def no_failure_def two_accounts_def decEntry_def decAccount_def
          decHistory_def intField_def stringField_def histField_def pike_def thompson_def
          snapshot_def eval_nat_numeral)
  have "\<exists>content bk'.
      Save no_failure [''Thompson'', ''Pike''] two_accounts (Some [GInt 1, GInt 2]) = (None, Some content)
    \<and> Load no_failure (two_accounts\<lparr>accounts := None\<rparr>) (Some content) = (None, bk')
    \<and> contents bk' = contents two_accounts"
    by (rule Save_Load_round_trip)
       (auto simp: no_failure_def two_accounts_def split: if_splits)
  with s l show ?thesis by auto
qed

end
